theory Spec2Isabelle
  imports Complex_Main
begin

section \<open>The Bitwarden sidecar (\<open>main.go\<close>)\<close>

text \<open>
  The program logs in to the vault command line tool \<open>bw\<close>, starts \<open>bw serve\<close>, polls its
  status endpoint until it reports an unlocked vault, and then serves a reverse proxy with
  a health endpoint, a sync endpoint and a periodic sync loop.

  Everything the program does to the outside is explicit here: the process environment, the
  external commands it starts, the HTTP requests it sends, its sleeps and its diagnostics
  on the error stream are fields of \<open>state\<close>; what the outside answers is read from
  \<open>world\<close>. Progress lines written to standard output are left out.
  Go's \<open>int\<close> and \<open>time.Duration\<close> are modelled as \<open>int\<close>: the loop counter of the
  poller never passes its bound, and the durations here are far below 64 bits.
\<close>

subsection \<open>Values decoded from JSON\<close>

text \<open>
  \<open>json.Unmarshal\<close> into \<open>map[string]interface{}\<close> produces \<open>nil\<close>, \<open>bool\<close>,
  \<open>float64\<close>, \<open>string\<close>, \<open>[]interface{}\<close> and \<open>map[string]interface{}\<close>. A Go map is a
  partial function on its keys.
\<close>

datatype gval =
    GNil
  | GBool bool
  | GFloat real
  | GString string
  | GSlice "gval list"
  | GMap "string \<Rightarrow> gval option"

type_synonym gmap = "string \<rightharpoonup> gval"

text \<open>\<open>m[k]\<close>: a missing key reads as the nil interface value.\<close>

definition mapIndex :: "gmap \<Rightarrow> string \<Rightarrow> gval" where
  "mapIndex m k = (case m k of None \<Rightarrow> GNil | Some x \<Rightarrow> x)"

text \<open>
  The two-result type assertions \<open>x.(map[string]interface{})\<close> and \<open>x.(string)\<close>:
  \<open>None\<close> is \<open>ok = false\<close>. This form of the assertion never panics.
\<close>

fun assertMap :: "gval \<Rightarrow> gmap option" where
  "assertMap (GMap m) = Some m"
| "assertMap _ = None"

fun assertString :: "gval \<Rightarrow> string option" where
  "assertString (GString s) = Some s"
| "assertString _ = None"

text \<open>\<open>isUnlocked\<close>, lines 157 to 172. Each \<open>then True\<close> is one \<open>return true\<close>.\<close>

definition isUnlocked :: "gmap \<Rightarrow> bool" where
  "isUnlocked v =
     (if (case assertMap (mapIndex v ''data'') of
            Some data \<Rightarrow>
              (if (case assertMap (mapIndex data ''template'') of
                     Some template \<Rightarrow>
                       (case assertString (mapIndex template ''status'') of
                          Some status \<Rightarrow> status = ''unlocked''
                        | None \<Rightarrow> False)
                   | None \<Rightarrow> False)
               then True
               else (case assertString (mapIndex data ''status'') of
                       Some status \<Rightarrow> status = ''unlocked''
                     | None \<Rightarrow> False))
          | None \<Rightarrow> False)
      then True
      else (case assertString (mapIndex v ''status'') of
              Some status \<Rightarrow> status = ''unlocked''
            | None \<Rightarrow> False))"

text \<open>
  The specification's reading of a placement such as \<open>data.template.status\<close>: the value
  reached from the payload by descending through objects along the keys of the path.
  A key that is missing, or a node on the way that is not an object, reaches nothing.
\<close>

fun atPath :: "gval \<Rightarrow> string list \<Rightarrow> gval option" where
  "atPath x [] = Some x"
| "atPath x (k # ks) =
     (case x of
        GMap m \<Rightarrow> (case m k of Some y \<Rightarrow> atPath y ks | None \<Rightarrow> None)
      | _ \<Rightarrow> None)"

definition unlockedAt :: "gmap \<Rightarrow> string list \<Rightarrow> bool" where
  "unlockedAt v p = (atPath (GMap v) p = Some (GString ''unlocked''))"

subsection \<open>The environment\<close>

type_synonym environment = "string \<rightharpoonup> string"

text \<open>\<open>os.LookupEnv\<close> and \<open>os.Getenv\<close>: an unset variable reads as the empty string.\<close>

definition LookupEnv :: "environment \<Rightarrow> string \<Rightarrow> string \<times> bool" where
  "LookupEnv env key = (case env key of Some v \<Rightarrow> (v, True) | None \<Rightarrow> ('''', False))"

definition Getenv :: "environment \<Rightarrow> string \<Rightarrow> string" where
  "Getenv env key = fst (LookupEnv env key)"

text \<open>\<open>getEnv\<close>, lines 22 to 27.\<close>

definition getEnv :: "environment \<Rightarrow> string \<Rightarrow> string \<Rightarrow> string" where
  "getEnv env key fallback =
     (case LookupEnv env key of
        (value, ok) \<Rightarrow> if ok \<and> value \<noteq> '''' then value else fallback)"

text \<open>The five places that read configuration through \<open>getEnv\<close>: lines 50, 62, 66, 67, 230.\<close>

definition bwServePort :: "environment \<Rightarrow> string" where
  "bwServePort env = getEnv env ''BW_SERVE_PORT'' ''8088''"

definition bwProxyPort :: "environment \<Rightarrow> string" where
  "bwProxyPort env = getEnv env ''BW_PROXY_PORT'' ''8087''"

definition bwDisableSync :: "environment \<Rightarrow> string" where
  "bwDisableSync env = getEnv env ''BW_DISABLE_SYNC'' ''false''"

definition bwProxyHost :: "environment \<Rightarrow> string" where
  "bwProxyHost env = getEnv env ''BW_PROXY_HOST'' ''localhost''"

definition syncIntervalStr :: "environment \<Rightarrow> string" where
  "syncIntervalStr env = getEnv env ''BW_SYNC_INTERVAL'' ''2m''"

subsection \<open>The outside world, the library and the state\<close>

text \<open>
  An external process either runs and exits with a status, leaving its combined standard
  output and error, or cannot be started. \<open>CombinedOutput\<close> and \<open>Run\<close> of \<open>os/exec\<close>
  return an error exactly when the process did not start or exited with a status other
  than zero.
\<close>

datatype process = Exited int string | NotStarted string

datatype exec_error = ExitError int | StartError string

fun cmdOutput :: "process \<Rightarrow> string" where
  "cmdOutput (Exited c out) = out"
| "cmdOutput (NotStarted e) = ''''"

fun cmdErr :: "process \<Rightarrow> exec_error option" where
  "cmdErr (Exited c out) = (if c = 0 then None else Some (ExitError c))"
| "cmdErr (NotStarted e) = Some (StartError e)"

text \<open>
  An HTTP client call fails with an error, or returns a response: its status code, the
  bytes read from its body and the error of reading them, if any.
\<close>

datatype http_result = HttpError string | HttpResponse int string "string option"

record request =
  Method :: string
  Path :: string

record response =
  StatusCode :: int
  Body :: string

text \<open>
  What the outside answers. The program's n-th external command, n-th GET and n-th POST
  (counted from 0) get the answers \<open>execCommand w n argv\<close>, \<open>httpGet w n url\<close> and
  \<open>httpPost w n url\<close>; \<open>proxyServe\<close> is the reverse proxy to the backing service.
\<close>

record world =
  execCommand :: "nat \<Rightarrow> string list \<Rightarrow> process"
  httpGet :: "nat \<Rightarrow> string \<Rightarrow> http_result"
  httpPost :: "nat \<Rightarrow> string \<Rightarrow> http_result"
  proxyServe :: "request \<Rightarrow> response"

text \<open>
  Functions of Go's standard library that the program calls and whose results it only
  passes on: \<open>json.Unmarshal\<close> into a \<open>map[string]interface{}\<close> (\<open>None\<close> is an error),
  \<open>strings.TrimSpace\<close>, and \<open>time.ParseDuration\<close> (\<open>Inl\<close> is the error's text, \<open>Inr\<close>
  the duration in nanoseconds).
\<close>

record lib =
  jsonUnmarshal :: "string \<Rightarrow> gmap option"
  TrimSpace :: "string \<Rightarrow> string"
  ParseDuration :: "string \<Rightarrow> string + int"

text \<open>The lines the program writes to the error stream, one constructor for each format.\<close>

datatype diagnostic =
    SyncFailed string
  | InvalidSyncInterval string string
  | PeriodicSyncFailed string
  | PeriodicSyncUnreadable int string
  | PeriodicSyncStatus int string

record state =
  environ :: environment
  spawned :: "string list list"
  gets :: "string list"
  posts :: "string list"
  sleeps :: "int list"
  stderr :: "diagnostic list"

text \<open>The errors the program returns, one constructor for each \<open>fmt.Errorf\<close>:
  the missing secrets (line 86), a failed command with its step, its output and its
  error (lines 95, 103, 113), and the poller's timeout (line 154).\<close>

datatype step = ConfigServer | Login | Unlock

datatype error =
    ConfigurationError
  | CommandError step string exec_error
  | TimeoutError

text \<open>Starting a command and waiting for it: the command is logged and the world answers.\<close>

definition runCommand :: "world \<Rightarrow> string list \<Rightarrow> state \<Rightarrow> (string \<times> exec_error option) \<times> state" where
  "runCommand w argv st =
     (let p = execCommand w (length (spawned st)) argv
      in ((cmdOutput p, cmdErr p), st\<lparr>spawned := spawned st @ [argv]\<rparr>))"

definition clientGet :: "world \<Rightarrow> string \<Rightarrow> state \<Rightarrow> http_result \<times> state" where
  "clientGet w url st = (httpGet w (length (gets st)) url, st\<lparr>gets := gets st @ [url]\<rparr>)"

definition clientPost :: "world \<Rightarrow> string \<Rightarrow> state \<Rightarrow> http_result \<times> state" where
  "clientPost w url st = (httpPost w (length (posts st)) url, st\<lparr>posts := posts st @ [url]\<rparr>)"

definition Sleep :: "int \<Rightarrow> state \<Rightarrow> state" where
  "Sleep d st = st\<lparr>sleeps := sleeps st @ [d]\<rparr>"

definition logErr :: "diagnostic \<Rightarrow> state \<Rightarrow> state" where
  "logErr d st = st\<lparr>stderr := stderr st @ [d]\<rparr>"

definition Millisecond :: int where "Millisecond = 1000000"
definition Second :: int where "Second = 1000 * Millisecond"
definition Minute :: int where "Minute = 60 * Second"

subsection \<open>Login and unlock\<close>

text \<open>\<open>loginAndGetSession\<close>, lines 78 to 117; \<open>loginAndUnlock\<close> is its part from line 99.\<close>

definition loginAndUnlock :: "lib \<Rightarrow> world \<Rightarrow> state \<Rightarrow> (error + string) \<times> state" where
  "loginAndUnlock l w st =
     (case runCommand w [''bw'', ''login'', ''--apikey''] st of
        ((loginOutput, Some e), st1) \<Rightarrow> (Inl (CommandError Login loginOutput e), st1)
      | ((loginOutput, None), st1) \<Rightarrow>
          (case runCommand w [''bw'', ''unlock'', ''--passwordenv'', ''BW_PASSWORD'', ''--raw''] st1 of
             ((unlockOutput, Some e), st2) \<Rightarrow> (Inl (CommandError Unlock unlockOutput e), st2)
           | ((unlockOutput, None), st2) \<Rightarrow> (Inr (TrimSpace l unlockOutput), st2)))"

definition loginAndGetSession :: "lib \<Rightarrow> world \<Rightarrow> state \<Rightarrow> (error + string) \<times> state" where
  "loginAndGetSession l w st =
     (let host = Getenv (environ st) ''BW_HOST'';
          clientID = Getenv (environ st) ''BW_CLIENTID'';
          clientSecret = Getenv (environ st) ''BW_CLIENTSECRET'';
          password = Getenv (environ st) ''BW_PASSWORD''
      in if clientID = '''' \<or> clientSecret = '''' \<or> password = ''''
         then (Inl ConfigurationError, st)
         else if host \<noteq> ''''
         then (case runCommand w [''bw'', ''config'', ''server'', host] st of
                 ((configResult, Some e), st1) \<Rightarrow>
                   (Inl (CommandError ConfigServer configResult e), st1)
               | ((configResult, None), st1) \<Rightarrow> loginAndUnlock l w st1)
         else loginAndUnlock l w st)"

subsection \<open>The readiness poller\<close>

text \<open>
  The package variables of lines 29 to 33. Nothing in \<open>main.go\<close> assigns to them, so
  they hold their initial values whenever \<open>main\<close> runs the poller.
\<close>

record globals =
  bwServeWaitRetries :: int
  bwServeWaitInterval :: int

definition initGlobals :: globals where
  "initGlobals = \<lparr>bwServeWaitRetries = 30, bwServeWaitInterval = 1 * Second\<rparr>"

text \<open>
  One attempt of the loop, lines 140 to 151, after the GET has answered: whether the
  attempt ends in \<open>return nil\<close>.
\<close>

definition attemptUnlocked :: "lib \<Rightarrow> http_result \<Rightarrow> bool" where
  "attemptUnlocked l r =
     (case r of
        HttpError e \<Rightarrow> False
      | HttpResponse code bytes ioErr \<Rightarrow>
          if code = 200 \<and> ioErr = None
          then (case jsonUnmarshal l bytes of
                  Some v \<Rightarrow> isUnlocked v
                | None \<Rightarrow> False)
          else False)"

text \<open>The loop of lines 138 to 154, from the value \<open>i\<close> of its counter.\<close>

function waitLoop :: "lib \<Rightarrow> world \<Rightarrow> globals \<Rightarrow> string \<Rightarrow> int \<Rightarrow> state \<Rightarrow> error option \<times> state" where
  "waitLoop l w g statusURL i st =
     (if i < bwServeWaitRetries g
      then (case clientGet w statusURL st of
              (r, st1) \<Rightarrow>
                if attemptUnlocked l r then (None, st1)
                else waitLoop l w g statusURL (i + 1) (Sleep (bwServeWaitInterval g) st1))
      else (Some TimeoutError, st))"
  by pat_completeness auto
termination
  by (relation "measure (\<lambda>(l, w, g, statusURL, i, st). nat (bwServeWaitRetries g - i))") auto

text \<open>\<open>waitForBwServe\<close>, lines 132 to 155.\<close>

definition statusURL :: "string \<Rightarrow> string" where
  "statusURL port = ''http://127.0.0.1:'' @ port @ ''/status''"

definition waitForBwServe :: "lib \<Rightarrow> world \<Rightarrow> globals \<Rightarrow> string \<Rightarrow> state \<Rightarrow> error option \<times> state" where
  "waitForBwServe l w g port st = waitLoop l w g (statusURL port) 0 st"

subsection \<open>The router\<close>

text \<open>
  \<open>http.Error\<close> writes the status code and the message followed by a newline.
\<close>

definition httpError :: "string \<Rightarrow> int \<Rightarrow> response" where
  "httpError msg code = \<lparr>StatusCode = code, Body = msg @ [CHR 0x0A]\<rparr>"

text \<open>The handler of \<open>/healthz\<close>, lines 197 to 200.\<close>

definition healthzHandler :: "request \<Rightarrow> state \<Rightarrow> response \<times> state" where
  "healthzHandler r st = (\<lparr>StatusCode = 200, Body = ''OK''\<rparr>, st)"

text \<open>The handler of \<open>/sync\<close>, lines 203 to 221.\<close>

definition syncHandler :: "world \<Rightarrow> request \<Rightarrow> state \<Rightarrow> response \<times> state" where
  "syncHandler w r st =
     (if Method r \<noteq> ''POST''
      then (httpError ''Method not allowed'' 405, st)
      else (case runCommand w [''bw'', ''sync''] st of
              ((out, Some e), st1) \<Rightarrow>
                (httpError (''Sync failed: '' @ out) 500, logErr (SyncFailed out) st1)
            | ((out, None), st1) \<Rightarrow>
                (\<lparr>StatusCode = 200, Body = ''Sync successful''\<rparr>, st1)))"

text \<open>
  \<open>setupRouter\<close>, lines 193 to 227: the three patterns registered on the mux, and the
  mux's choice among them for a request whose path is in canonical form (the mux answers
  other paths with a redirect of its own): \<open>/healthz\<close> and \<open>/sync\<close> match their own path
  only, \<open>/\<close> matches every other path.
\<close>

definition serveHTTP :: "world \<Rightarrow> request \<Rightarrow> state \<Rightarrow> response \<times> state" where
  "serveHTTP w r st =
     (if Path r = ''/healthz'' then healthzHandler r st
      else if Path r = ''/sync'' then syncHandler w r st
      else (proxyServe w r, st))"

subsection \<open>The periodic sync\<close>

text \<open>
  The body of the loop of lines 243 to 260, run once for each tick of the ticker; the
  loop has no exit. \<open>syncTicks\<close> is the loop over the first \<open>n\<close> ticks.
\<close>

definition syncTick :: "world \<Rightarrow> string \<Rightarrow> state \<Rightarrow> state" where
  "syncTick w syncURL st =
     (case clientPost w syncURL st of
        (HttpError e, st1) \<Rightarrow> logErr (PeriodicSyncFailed e) st1
      | (HttpResponse code bytes ioErr, st1) \<Rightarrow>
          if code \<noteq> 200
          then (case ioErr of
                  Some e \<Rightarrow> logErr (PeriodicSyncUnreadable code e) st1
                | None \<Rightarrow> logErr (PeriodicSyncStatus code bytes) st1)
          else st1)"

fun syncTicks :: "world \<Rightarrow> string \<Rightarrow> nat \<Rightarrow> state \<Rightarrow> state" where
  "syncTicks w syncURL 0 st = st"
| "syncTicks w syncURL (Suc n) st = syncTicks w syncURL n (syncTick w syncURL st)"

text \<open>
  \<open>startPeriodicSync\<close>, lines 229 to 261, observed when the ticker has ticked \<open>n\<close> times.
  \<open>time.NewTicker\<close> panics on an interval that is not positive; otherwise the function
  is still in its loop, ticking at the interval it computed.
\<close>

datatype running = Panicked | Ticking int string

definition startPeriodicSync :: "lib \<Rightarrow> world \<Rightarrow> string \<Rightarrow> string \<Rightarrow> nat \<Rightarrow> state \<Rightarrow> running \<times> state" where
  "startPeriodicSync l w host port n st =
     (let s = syncIntervalStr (environ st);
          (syncInterval, st1) =
             (case ParseDuration l s of
                Inl e \<Rightarrow> (2 * Minute, logErr (InvalidSyncInterval s e) st)
              | Inr d \<Rightarrow> (d, st));
          syncURL = ''http://'' @ host @ '':'' @ port @ ''/sync''
      in if syncInterval \<le> 0 then (Panicked, st1)
         else (Ticking syncInterval syncURL, syncTicks w syncURL n st1))"

subsection \<open>Concrete libraries and worlds\<close>

text \<open>
  Inputs on which the theorems below are evaluated. \<open>trimASCII\<close> removes leading and
  trailing ASCII white space, as \<open>strings.TrimSpace\<close> does on ASCII text; \<open>testLib\<close>
  decodes the two bodies used here and parses the three durations used here.
\<close>

definition isSpaceASCII :: "char \<Rightarrow> bool" where
  "isSpaceASCII c = (c \<in> set [CHR '' '', CHR 0x09, CHR 0x0A, CHR 0x0B, CHR 0x0C, CHR 0x0D])"

definition trimASCII :: "string \<Rightarrow> string" where
  "trimASCII s = rev (dropWhile isSpaceASCII (rev (dropWhile isSpaceASCII s)))"

definition templateUnlocked :: string where
  \<open>templateUnlocked = ''{"data": {"template": {"status": "unlocked"}}}''\<close>

definition templateLocked :: string where
  \<open>templateLocked = ''{"data": {"template": {"status": "locked"}}}''\<close>

definition testLib :: lib where
  "testLib =
     \<lparr>jsonUnmarshal = (\<lambda>b.
        if b = templateUnlocked
        then Some [''data'' \<mapsto> GMap [''template'' \<mapsto> GMap [''status'' \<mapsto> GString ''unlocked'']]]
        else if b = templateLocked
        then Some [''data'' \<mapsto> GMap [''template'' \<mapsto> GMap [''status'' \<mapsto> GString ''locked'']]]
        else None),
      TrimSpace = trimASCII,
      ParseDuration = (\<lambda>s.
        if s = ''2m'' then Inr (2 * Minute)
        else if s = ''10ms'' then Inr (10 * Millisecond)
        else if s = ''1s'' then Inr Second
        else Inl ''time: invalid duration'')\<rparr>"

definition emptyState :: state where
  "emptyState = \<lparr>environ = Map.empty, spawned = [], gets = [], posts = [], sleeps = [], stderr = []\<rparr>"

definition noProxy :: "request \<Rightarrow> response" where
  "noProxy r = \<lparr>StatusCode = 502, Body = ''''\<rparr>"

text \<open>A backing service that always answers 200 with the given body; every command exits 0.\<close>

definition serverAnswering :: "string \<Rightarrow> world" where
  "serverAnswering b =
     \<lparr>execCommand = (\<lambda>n argv. Exited 0 ''''),
      httpGet = (\<lambda>n url. HttpResponse 200 b None),
      httpPost = (\<lambda>n url. HttpResponse 200 ''Sync successful'' None),
      proxyServe = noProxy\<rparr>"

text \<open>A backing service that refuses the first connection, then answers 503, then answers
  200 with a body that is not JSON, and from the fourth request on reports unlocked.\<close>

definition slowServer :: world where
  "slowServer =
     \<lparr>execCommand = (\<lambda>n argv. Exited 0 ''''),
      httpGet = (\<lambda>n url.
        if n = 0 then HttpError ''connection refused''
        else if n = 1 then HttpResponse 503 '''' None
        else if n = 2 then HttpResponse 200 ''starting'' None
        else HttpResponse 200 templateUnlocked None),
      httpPost = (\<lambda>n url. HttpResponse 200 ''Sync successful'' None),
      proxyServe = noProxy\<rparr>"

text \<open>A world in which \<open>bw unlock\<close> and \<open>bw sync\<close> exit with the given status and output,
  and every other command exits 0.\<close>

definition bwWorld :: "int \<Rightarrow> string \<Rightarrow> world" where
  "bwWorld c out =
     \<lparr>execCommand = (\<lambda>n argv.
        if argv = [''bw'', ''unlock'', ''--passwordenv'', ''BW_PASSWORD'', ''--raw'']
           \<or> argv = [''bw'', ''sync'']
        then Exited c out else Exited 0 ''''),
      httpGet = (\<lambda>n url. HttpError ''connection refused''),
      httpPost = (\<lambda>n url. HttpError ''connection refused''),
      proxyServe = noProxy\<rparr>"

definition secretsEnv :: environment where
  "secretsEnv =
     [''BW_HOST'' \<mapsto> ''https://vault.example.org'', ''BW_CLIENTID'' \<mapsto> ''user.1'',
      ''BW_CLIENTSECRET'' \<mapsto> ''s3cret'', ''BW_PASSWORD'' \<mapsto> ''hunter2'']"

definition pollEnv :: environment where
  "pollEnv = [''BW_SERVE_WAIT_RETRIES'' \<mapsto> ''2'', ''BW_SERVE_WAIT_INTERVAL'' \<mapsto> ''10ms'']"

text \<open>The two requests to \<open>/sync\<close> used below.\<close>

definition postSync :: request where
  "postSync = \<lparr>Method = ''POST'', Path = ''/sync''\<rparr>"

definition getSync :: request where
  "getSync = \<lparr>Method = ''GET'', Path = ''/sync''\<rparr>"

section \<open>Properties\<close>

subsection \<open>The unlock predicate\<close>

lemma assertString_Some: "assertString x = Some s \<longleftrightarrow> x = GString s"
  by (cases x) auto

lemma statusUnlocked_iff:
  "(case assertString (mapIndex m ''status'') of Some s \<Rightarrow> s = ''unlocked'' | None \<Rightarrow> False)
     \<longleftrightarrow> m ''status'' = Some (GString ''unlocked'')"
  by (auto simp: mapIndex_def assertString_Some split: option.splits)

text \<open>
  C1. On every decoded JSON object, \<open>isUnlocked\<close> is true exactly when the string
  \<open>unlocked\<close> stands at \<open>data.template.status\<close>, at \<open>data.status\<close> or at the top-level
  \<open>status\<close>. Every other shape gives false: a missing key, a status that is not a
  string, a node on the way that is not an object; among them the payloads \<open>{}\<close>,
  \<open>{"data": 123}\<close>, \<open>{"data": {"template": []}}\<close> and \<open>{"status": {}}\<close>. The predicate is
  a total function to \<open>bool\<close>: no branch of it raises.
\<close>

theorem isUnlocked_iff_documented_placement:
  "(isUnlocked v \<longleftrightarrow>
        unlockedAt v [''data'', ''template'', ''status'']
      \<or> unlockedAt v [''data'', ''status'']
      \<or> unlockedAt v [''status''])
   \<and> \<not> isUnlocked Map.empty
   \<and> \<not> isUnlocked [''data'' \<mapsto> GFloat 123]
   \<and> \<not> isUnlocked [''data'' \<mapsto> GMap [''template'' \<mapsto> GSlice []]]
   \<and> \<not> isUnlocked [''status'' \<mapsto> GMap Map.empty]"
proof -
  have placements: "isUnlocked v \<longleftrightarrow>
        unlockedAt v [''data'', ''template'', ''status'']
      \<or> unlockedAt v [''data'', ''status'']
      \<or> unlockedAt v [''status'']"
    unfolding isUnlocked_def unlockedAt_def statusUnlocked_iff
    by (auto simp: mapIndex_def split: option.splits gval.splits)
  have empty_object: "\<not> isUnlocked Map.empty"
    by (simp add: isUnlocked_def mapIndex_def)
  have data_number: "\<not> isUnlocked [''data'' \<mapsto> GFloat 123]"
    by (simp add: isUnlocked_def mapIndex_def)
  have template_array: "\<not> isUnlocked [''data'' \<mapsto> GMap [''template'' \<mapsto> GSlice []]]"
    by (simp add: isUnlocked_def mapIndex_def)
  have status_object: "\<not> isUnlocked [''status'' \<mapsto> GMap Map.empty]"
    by (simp add: isUnlocked_def mapIndex_def)
  from placements empty_object data_number template_array status_object
  show ?thesis by blast
qed

subsection \<open>The environment lookup\<close>

text \<open>
  C10. \<open>getEnv\<close> returns the fallback for a variable that is set to the empty string, as
  it does for a variable that is not set; so each of the five keys read through it (the
  internal serve port, the proxy port, the proxy host, the flag that disables sync, the
  sync interval) reads as its default in both cases.
\<close>

theorem getEnv_empty_as_unset:
  "getEnv (env(k \<mapsto> '''')) k fallback = fallback
   \<and> getEnv (env(k := None)) k fallback = fallback
   \<and> bwServePort (env(''BW_SERVE_PORT'' \<mapsto> '''')) = ''8088''
   \<and> bwServePort (env(''BW_SERVE_PORT'' := None)) = ''8088''
   \<and> bwProxyPort (env(''BW_PROXY_PORT'' \<mapsto> '''')) = ''8087''
   \<and> bwProxyPort (env(''BW_PROXY_PORT'' := None)) = ''8087''
   \<and> bwProxyHost (env(''BW_PROXY_HOST'' \<mapsto> '''')) = ''localhost''
   \<and> bwProxyHost (env(''BW_PROXY_HOST'' := None)) = ''localhost''
   \<and> bwDisableSync (env(''BW_DISABLE_SYNC'' \<mapsto> '''')) = ''false''
   \<and> bwDisableSync (env(''BW_DISABLE_SYNC'' := None)) = ''false''
   \<and> syncIntervalStr (env(''BW_SYNC_INTERVAL'' \<mapsto> '''')) = ''2m''
   \<and> syncIntervalStr (env(''BW_SYNC_INTERVAL'' := None)) = ''2m''"
  by (simp add: getEnv_def LookupEnv_def bwServePort_def bwProxyPort_def bwProxyHost_def
      bwDisableSync_def syncIntervalStr_def)

subsection \<open>The readiness poller\<close>

lemmas waitLoop_unfold = waitLoop.simps
declare waitLoop.simps [simp del]

lemma waitLoop_timeout:
  "nat (bwServeWaitRetries g - i) = m \<Longrightarrow>
   (\<And>k. k < m \<Longrightarrow> \<not> attemptUnlocked l (httpGet w (length (gets st) + k) url)) \<Longrightarrow>
   waitLoop l w g url i st =
     (Some TimeoutError,
      st\<lparr>gets := gets st @ replicate m url,
         sleeps := sleeps st @ replicate m (bwServeWaitInterval g)\<rparr>)"
proof (induction m arbitrary: i st)
  case 0
  then have "\<not> i < bwServeWaitRetries g" by simp
  then show ?case by (simp add: waitLoop_unfold)
next
  case (Suc m)
  let ?st1 = "Sleep (bwServeWaitInterval g) (st\<lparr>gets := gets st @ [url]\<rparr>)"
  from Suc.prems(1) have lt: "i < bwServeWaitRetries g" and rest: "nat (bwServeWaitRetries g - (i + 1)) = m"
    by simp_all
  from Suc.prems(2) [of 0] have first: "\<not> attemptUnlocked l (httpGet w (length (gets st)) url)"
    by simp
  have later: "\<not> attemptUnlocked l (httpGet w (length (gets ?st1) + k) url)" if "k < m" for k
    using Suc.prems(2) [of "Suc k"] that by (simp add: Sleep_def)
  have "waitLoop l w g url i st = waitLoop l w g url (i + 1) ?st1"
    using lt first by (subst waitLoop_unfold) (simp add: clientGet_def)
  also have "\<dots> = (Some TimeoutError,
      ?st1\<lparr>gets := gets ?st1 @ replicate m url,
         sleeps := sleeps ?st1 @ replicate m (bwServeWaitInterval g)\<rparr>)"
    using Suc.IH [OF rest later] by simp
  also have "\<dots> = (Some TimeoutError,
      st\<lparr>gets := gets st @ replicate (Suc m) url,
         sleeps := sleeps st @ replicate (Suc m) (bwServeWaitInterval g)\<rparr>)"
    by (simp add: Sleep_def)
  finally show ?case .
qed

lemma waitLoop_unlocked:
  "int k < bwServeWaitRetries g - i \<Longrightarrow>
   (\<And>j. j < k \<Longrightarrow> \<not> attemptUnlocked l (httpGet w (length (gets st) + j) url)) \<Longrightarrow>
   attemptUnlocked l (httpGet w (length (gets st) + k) url) \<Longrightarrow>
   waitLoop l w g url i st =
     (None,
      st\<lparr>gets := gets st @ replicate (Suc k) url,
         sleeps := sleeps st @ replicate k (bwServeWaitInterval g)\<rparr>)"
proof (induction k arbitrary: i st)
  case 0
  then have "i < bwServeWaitRetries g" by simp
  with "0.prems"(3) show ?case
    by (subst waitLoop_unfold) (simp add: clientGet_def)
next
  case (Suc k)
  let ?st1 = "Sleep (bwServeWaitInterval g) (st\<lparr>gets := gets st @ [url]\<rparr>)"
  from Suc.prems(1) have lt: "i < bwServeWaitRetries g" and rest: "int k < bwServeWaitRetries g - (i + 1)"
    by simp_all
  from Suc.prems(2) [of 0] have first: "\<not> attemptUnlocked l (httpGet w (length (gets st)) url)"
    by simp
  have later: "\<not> attemptUnlocked l (httpGet w (length (gets ?st1) + j) url)" if "j < k" for j
    using Suc.prems(2) [of "Suc j"] that by (simp add: Sleep_def)
  have hit: "attemptUnlocked l (httpGet w (length (gets ?st1) + k) url)"
    using Suc.prems(3) by (simp add: Sleep_def)
  have "waitLoop l w g url i st = waitLoop l w g url (i + 1) ?st1"
    using lt first by (subst waitLoop_unfold) (simp add: clientGet_def)
  also have "\<dots> = (None,
      ?st1\<lparr>gets := gets ?st1 @ replicate (Suc k) url,
         sleeps := sleeps ?st1 @ replicate k (bwServeWaitInterval g)\<rparr>)"
    using Suc.IH [OF rest later hit] by simp
  also have "\<dots> = (None,
      st\<lparr>gets := gets st @ replicate (Suc (Suc k)) url,
         sleeps := sleeps st @ replicate (Suc k) (bwServeWaitInterval g)\<rparr>)"
    by (simp add: Sleep_def)
  finally show ?case .
qed

lemma clientGet_environ:
  "clientGet w u (st\<lparr>environ := env\<rparr>) =
     (case clientGet w u st of (r, st') \<Rightarrow> (r, st'\<lparr>environ := env\<rparr>))"
  by (simp add: clientGet_def)

lemma Sleep_environ: "Sleep d (st\<lparr>environ := env\<rparr>) = (Sleep d st)\<lparr>environ := env\<rparr>"
  by (simp add: Sleep_def)

lemma waitLoop_environ:
  "waitLoop l w g url i (st\<lparr>environ := env\<rparr>) =
     (case waitLoop l w g url i st of (r, st') \<Rightarrow> (r, st'\<lparr>environ := env\<rparr>))"
proof (induction l w g url i st rule: waitLoop.induct)
  case (1 l w g statusURL i st)
  then show ?case
    by (subst (1 2) waitLoop_unfold)
       (auto simp: clientGet_environ Sleep_environ split: prod.splits)
qed

text \<open>
  C3. When none of the attempts within the budget ends unlocked, the poller makes exactly
  \<open>bwServeWaitRetries\<close> requests, sleeps once after each, and fails with the timeout
  error. An attempt that ends in a network error, in a response other than 200 or in a
  body that is not JSON is such an attempt: the loop counter is the only budget.
\<close>

theorem poller_timeout_after_max_attempts:
  "((\<forall>k < nat (bwServeWaitRetries g).
        \<not> attemptUnlocked l (httpGet w (length (gets st) + k) (statusURL port)))
      \<longrightarrow> waitForBwServe l w g port st =
            (Some TimeoutError,
             st\<lparr>gets := gets st @ replicate (nat (bwServeWaitRetries g)) (statusURL port),
                sleeps := sleeps st @ replicate (nat (bwServeWaitRetries g)) (bwServeWaitInterval g)\<rparr>))
   \<and> \<not> attemptUnlocked l (HttpError e)
   \<and> (code \<noteq> 200 \<longrightarrow> \<not> attemptUnlocked l (HttpResponse code bytes ioErr))
   \<and> (jsonUnmarshal l bytes = None \<longrightarrow> \<not> attemptUnlocked l (HttpResponse code bytes ioErr))"
proof -
  have budget: "waitForBwServe l w g port st =
            (Some TimeoutError,
             st\<lparr>gets := gets st @ replicate (nat (bwServeWaitRetries g)) (statusURL port),
                sleeps := sleeps st @ replicate (nat (bwServeWaitRetries g)) (bwServeWaitInterval g)\<rparr>)"
    if "\<forall>k < nat (bwServeWaitRetries g).
        \<not> attemptUnlocked l (httpGet w (length (gets st) + k) (statusURL port))"
    unfolding waitForBwServe_def
    using that by (intro waitLoop_timeout) simp_all
  have network: "\<not> attemptUnlocked l (HttpError e)"
    by (simp add: attemptUnlocked_def)
  have not_ok: "\<not> attemptUnlocked l (HttpResponse code bytes ioErr)" if "code \<noteq> 200"
    using that by (simp add: attemptUnlocked_def)
  have bad_json: "\<not> attemptUnlocked l (HttpResponse code bytes ioErr)" if "jsonUnmarshal l bytes = None"
    using that by (simp add: attemptUnlocked_def)
  from budget network not_ok bad_json show ?thesis by blast
qed

theorem poller_timeout_after_max_attempts_witness:
  "waitForBwServe testLib slowServer
      \<lparr>bwServeWaitRetries = 3, bwServeWaitInterval = 10 * Millisecond\<rparr> ''8088'' emptyState =
     (Some TimeoutError,
      emptyState\<lparr>gets := replicate 3 (statusURL ''8088''),
                 sleeps := replicate 3 (10 * Millisecond)\<rparr>)
   \<and> \<not> attemptUnlocked testLib (HttpError ''connection refused'')
   \<and> \<not> attemptUnlocked testLib (HttpResponse 503 '''' None)
   \<and> \<not> attemptUnlocked testLib (HttpResponse 200 ''starting'' None)"
proof -
  have failing: "\<forall>k < nat 3. \<not> attemptUnlocked testLib (httpGet slowServer k u)" for u
    by (auto simp: slowServer_def attemptUnlocked_def testLib_def templateUnlocked_def
        templateLocked_def)
  have bad: "jsonUnmarshal testLib ''starting'' = None"
    by (simp add: testLib_def templateUnlocked_def templateLocked_def)
  have code: "(503::int) \<noteq> 200" by simp
  show ?thesis
    using poller_timeout_after_max_attempts
      [of "\<lparr>bwServeWaitRetries = 3, bwServeWaitInterval = 10 * Millisecond\<rparr>" testLib slowServer
        emptyState "''8088''" "''connection refused''" 503 "''''" None]
      poller_timeout_after_max_attempts
      [of "\<lparr>bwServeWaitRetries = 3, bwServeWaitInterval = 10 * Millisecond\<rparr>" testLib slowServer
        emptyState "''8088''" "''connection refused''" 200 "''starting''" None]
      failing bad code
    by (simp add: emptyState_def)
qed

text \<open>
  C4. When attempt \<open>k\<close> (counted from 0, within the budget) is the first whose payload
  satisfies the unlock predicate, the poller returns success at that attempt: it has made
  \<open>k + 1\<close> requests and slept \<open>k\<close> times, once after each failed attempt and not after
  the successful one. Against a server that always reports unlocked, with the budget of
  30, it succeeds at the first request without sleeping.
\<close>

theorem poller_returns_at_first_unlocked:
  "(int k < bwServeWaitRetries g \<longrightarrow>
    (\<forall>j < k. \<not> attemptUnlocked l (httpGet w (length (gets st) + j) (statusURL port))) \<longrightarrow>
    attemptUnlocked l (httpGet w (length (gets st) + k) (statusURL port)) \<longrightarrow>
    waitForBwServe l w g port st =
      (None,
       st\<lparr>gets := gets st @ replicate (Suc k) (statusURL port),
          sleeps := sleeps st @ replicate k (bwServeWaitInterval g)\<rparr>))
   \<and> ((\<forall>n. attemptUnlocked l (httpGet w n (statusURL port))) \<longrightarrow>
       waitForBwServe l w initGlobals port st =
         (None, st\<lparr>gets := gets st @ [statusURL port]\<rparr>))"
proof -
  have at_k: "waitForBwServe l w g port st =
      (None,
       st\<lparr>gets := gets st @ replicate (Suc k) (statusURL port),
          sleeps := sleeps st @ replicate k (bwServeWaitInterval g)\<rparr>)"
    if "int k < bwServeWaitRetries g"
      and "\<forall>j < k. \<not> attemptUnlocked l (httpGet w (length (gets st) + j) (statusURL port))"
      and "attemptUnlocked l (httpGet w (length (gets st) + k) (statusURL port))"
    unfolding waitForBwServe_def
    using that by (intro waitLoop_unlocked) simp_all
  have always: "waitForBwServe l w initGlobals port st =
         (None, st\<lparr>gets := gets st @ [statusURL port]\<rparr>)"
    if "\<forall>n. attemptUnlocked l (httpGet w n (statusURL port))"
  proof -
    have "waitLoop l w initGlobals (statusURL port) 0 st =
      (None,
       st\<lparr>gets := gets st @ replicate (Suc 0) (statusURL port),
          sleeps := sleeps st @ replicate 0 (bwServeWaitInterval initGlobals)\<rparr>)"
      using that by (intro waitLoop_unlocked) (simp_all add: initGlobals_def)
    then show ?thesis by (simp add: waitForBwServe_def)
  qed
  from at_k always show ?thesis by blast
qed

theorem poller_returns_at_first_unlocked_witness:
  "waitForBwServe testLib slowServer initGlobals ''8088'' emptyState =
     (None,
      emptyState\<lparr>gets := replicate 4 (statusURL ''8088''),
                 sleeps := replicate 3 (1 * Second)\<rparr>)
   \<and> waitForBwServe testLib (serverAnswering templateUnlocked) initGlobals ''8088'' emptyState =
     (None, emptyState\<lparr>gets := [statusURL ''8088'']\<rparr>)"
proof -
  have budget: "int 3 < bwServeWaitRetries initGlobals"
    by (simp add: initGlobals_def)
  have failing: "\<forall>j < 3. \<not> attemptUnlocked testLib (httpGet slowServer (length (gets emptyState) + j) u)" for u
    by (auto simp: slowServer_def attemptUnlocked_def testLib_def templateUnlocked_def
        templateLocked_def emptyState_def)
  have hit: "attemptUnlocked testLib (httpGet slowServer (length (gets emptyState) + 3) u)" for u
    by (simp add: slowServer_def attemptUnlocked_def testLib_def emptyState_def
        isUnlocked_def mapIndex_def)
  have always: "\<forall>n. attemptUnlocked testLib (httpGet (serverAnswering templateUnlocked) n u)" for u
    by (simp add: serverAnswering_def attemptUnlocked_def testLib_def isUnlocked_def mapIndex_def)
  show ?thesis
    using poller_returns_at_first_unlocked [of 3 initGlobals testLib slowServer emptyState "''8088''"]
      poller_returns_at_first_unlocked
      [of 0 initGlobals testLib "serverAnswering templateUnlocked" emptyState "''8088''"]
      budget failing hit always
    by (simp add: emptyState_def initGlobals_def)
qed

text \<open>
  C2. The poller run with the package's initial policy makes 30 attempts one second apart,
  and the environment has no part in it: its result is the same under every environment.
  With \<open>BW_SERVE_WAIT_RETRIES=2\<close> and \<open>BW_SERVE_WAIT_INTERVAL=10ms\<close> set, against a
  server that always reports a locked vault, it still makes 30 requests and sleeps 30
  times for one second before it times out.
\<close>

theorem poller_ignores_environment:
  "waitForBwServe l w initGlobals port (st\<lparr>environ := env\<rparr>) =
     (case waitForBwServe l w initGlobals port st of
        (r, st') \<Rightarrow> (r, st'\<lparr>environ := env\<rparr>))
   \<and> waitForBwServe testLib (serverAnswering templateLocked) initGlobals ''8088''
        (emptyState\<lparr>environ := pollEnv\<rparr>) =
       (Some TimeoutError,
        emptyState\<lparr>environ := pollEnv,
                   gets := replicate 30 (statusURL ''8088''),
                   sleeps := replicate 30 (1 * Second)\<rparr>)"
proof -
  have locked: "\<not> attemptUnlocked testLib (httpGet (serverAnswering templateLocked) n u)" for n u
    by (simp add: serverAnswering_def attemptUnlocked_def testLib_def templateUnlocked_def
        templateLocked_def isUnlocked_def mapIndex_def)
  have "waitLoop testLib (serverAnswering templateLocked) initGlobals (statusURL ''8088'') 0
          (emptyState\<lparr>environ := pollEnv\<rparr>) =
       (Some TimeoutError,
        (emptyState\<lparr>environ := pollEnv\<rparr>)
          \<lparr>gets := gets (emptyState\<lparr>environ := pollEnv\<rparr>) @ replicate 30 (statusURL ''8088''),
           sleeps := sleeps (emptyState\<lparr>environ := pollEnv\<rparr>)
                       @ replicate 30 (bwServeWaitInterval initGlobals)\<rparr>)"
    by (rule waitLoop_timeout) (simp_all add: initGlobals_def locked)
  then have run: "waitForBwServe testLib (serverAnswering templateLocked) initGlobals ''8088''
        (emptyState\<lparr>environ := pollEnv\<rparr>) =
       (Some TimeoutError,
        emptyState\<lparr>environ := pollEnv,
                   gets := replicate 30 (statusURL ''8088''),
                   sleeps := replicate 30 (1 * Second)\<rparr>)"
    by (simp add: waitForBwServe_def emptyState_def initGlobals_def)
  have indep: "waitForBwServe l w initGlobals port (st\<lparr>environ := env\<rparr>) =
     (case waitForBwServe l w initGlobals port st of
        (r, st') \<Rightarrow> (r, st'\<lparr>environ := env\<rparr>))"
    unfolding waitForBwServe_def by (rule waitLoop_environ)
  from indep run show ?thesis by (rule conjI)
qed

subsection \<open>Login and unlock\<close>

lemma runCommand_Exited:
  "execCommand w (length (spawned st)) argv = Exited c out \<Longrightarrow>
   runCommand w argv st =
     ((out, if c = 0 then None else Some (ExitError c)), st\<lparr>spawned := spawned st @ [argv]\<rparr>)"
  by (simp add: runCommand_def)

text \<open>
  C5. When one of the three required secrets (\<open>BW_CLIENTID\<close>, \<open>BW_CLIENTSECRET\<close>,
  \<open>BW_PASSWORD\<close>) is absent from the environment, or set to the empty string,
  \<open>loginAndGetSession\<close> fails with the configuration error and leaves the state as it
  was: no external command has been started.
\<close>

theorem login_missing_secret_is_configuration_error:
  "k \<in> {''BW_CLIENTID'', ''BW_CLIENTSECRET'', ''BW_PASSWORD''} \<Longrightarrow>
   environ st k = None \<or> environ st k = Some '''' \<Longrightarrow>
   loginAndGetSession l w st = (Inl ConfigurationError, st)
   \<and> spawned (snd (loginAndGetSession l w st)) = spawned st"
  by (auto simp: loginAndGetSession_def Getenv_def LookupEnv_def Let_def)

theorem login_missing_secret_is_configuration_error_witness:
  "loginAndGetSession testLib (bwWorld 0 ''token'')
      (emptyState\<lparr>environ := secretsEnv(''BW_PASSWORD'' := None)\<rparr>) =
     (Inl ConfigurationError, emptyState\<lparr>environ := secretsEnv(''BW_PASSWORD'' := None)\<rparr>)
   \<and> spawned (snd (loginAndGetSession testLib (bwWorld 0 ''token'')
      (emptyState\<lparr>environ := secretsEnv(''BW_PASSWORD'' := None)\<rparr>))) = []"
  using login_missing_secret_is_configuration_error
    [of "''BW_PASSWORD''" "emptyState\<lparr>environ := secretsEnv(''BW_PASSWORD'' := None)\<rparr>"
      testLib "bwWorld 0 ''token''"]
  by (simp add: emptyState_def)

text \<open>
  C6. With the three secrets present, when the host configuration (run only if \<open>BW_HOST\<close>
  is set) and the login exit with status 0, \<open>loginAndGetSession\<close> returns the trimmed
  output of \<open>bw unlock ... --raw\<close> if that command exits with status 0, and fails with the
  command error of the unlock step, carrying the command's output and exit status,
  if it exits with another status.
\<close>

theorem login_returns_trimmed_unlock_output:
  assumes "Getenv (environ st) ''BW_CLIENTID'' \<noteq> ''''"
    and "Getenv (environ st) ''BW_CLIENTSECRET'' \<noteq> ''''"
    and "Getenv (environ st) ''BW_PASSWORD'' \<noteq> ''''"
    and "host = Getenv (environ st) ''BW_HOST''"
    and "host \<noteq> '''' \<longrightarrow>
           execCommand w (length (spawned st)) [''bw'', ''config'', ''server'', host] = Exited 0 configOut"
    and "n = length (spawned st) + (if host = '''' then 0 else 1)"
    and "execCommand w n [''bw'', ''login'', ''--apikey''] = Exited 0 loginOut"
    and "execCommand w (Suc n) [''bw'', ''unlock'', ''--passwordenv'', ''BW_PASSWORD'', ''--raw'']
           = Exited c unlockOut"
  shows "fst (loginAndGetSession l w st) =
           (if c = 0 then Inr (TrimSpace l unlockOut)
            else Inl (CommandError Unlock unlockOut (ExitError c)))"
proof -
  have unlock: "fst (loginAndUnlock l w st1) =
           (if c = 0 then Inr (TrimSpace l unlockOut)
            else Inl (CommandError Unlock unlockOut (ExitError c)))"
    if "length (spawned st1) = n" for st1
  proof -
    from that assms(7) have "execCommand w (length (spawned st1)) [''bw'', ''login'', ''--apikey''] = Exited 0 loginOut"
      by simp
    note login = runCommand_Exited [OF this]
    from that assms(8)
    have "execCommand w (length (spawned (st1\<lparr>spawned := spawned st1 @ [[''bw'', ''login'', ''--apikey'']]\<rparr>)))
            [''bw'', ''unlock'', ''--passwordenv'', ''BW_PASSWORD'', ''--raw''] = Exited c unlockOut"
      by simp
    note unlock = runCommand_Exited [OF this]
    show ?thesis
      by (simp add: loginAndUnlock_def login unlock)
  qed
  show ?thesis
  proof (cases "host = ''''")
    case True
    with assms(6) have "length (spawned st) = n" by simp
    from unlock [OF this] True assms(1-4) show ?thesis
      by (simp add: loginAndGetSession_def Let_def)
  next
    case False
    with assms(5) have "execCommand w (length (spawned st)) [''bw'', ''config'', ''server'', host] = Exited 0 configOut"
      by simp
    note config = runCommand_Exited [OF this]
    from False assms(6)
    have "length (spawned (st\<lparr>spawned := spawned st @ [[''bw'', ''config'', ''server'', host]]\<rparr>)) = n"
      by simp
    from unlock [OF this] False assms(1-4) config show ?thesis
      by (simp add: loginAndGetSession_def Let_def)
  qed
qed

theorem login_returns_trimmed_unlock_output_witness:
  "fst (loginAndGetSession testLib (bwWorld 0 (''  5up3r-s3ss10n-k3y'' @ [CHR 0x0A]))
          (emptyState\<lparr>environ := secretsEnv\<rparr>)) = Inr ''5up3r-s3ss10n-k3y''
   \<and> fst (loginAndGetSession testLib (bwWorld 1 ''Invalid master password.'')
          (emptyState\<lparr>environ := secretsEnv\<rparr>))
       = Inl (CommandError Unlock ''Invalid master password.'' (ExitError 1))"
proof -
  let ?st = "emptyState\<lparr>environ := secretsEnv\<rparr>"
  let ?host = "''https://vault.example.org''"
  have secrets: "Getenv (environ ?st) ''BW_CLIENTID'' \<noteq> ''''"
    "Getenv (environ ?st) ''BW_CLIENTSECRET'' \<noteq> ''''"
    "Getenv (environ ?st) ''BW_PASSWORD'' \<noteq> ''''"
    "?host = Getenv (environ ?st) ''BW_HOST''"
    by (simp_all add: secretsEnv_def Getenv_def LookupEnv_def)
  have config: "?host \<noteq> '''' \<longrightarrow>
      execCommand (bwWorld c out) (length (spawned ?st)) [''bw'', ''config'', ''server'', ?host] = Exited 0 ''''" for c out
    by (simp add: bwWorld_def)
  have n: "1 = length (spawned ?st) + (if ?host = '''' then 0 else 1)"
    by (simp add: emptyState_def)
  have login: "execCommand (bwWorld c out) 1 [''bw'', ''login'', ''--apikey''] = Exited 0 ''''" for c out
    by (simp add: bwWorld_def)
  have unlock: "execCommand (bwWorld c out) (Suc 1) [''bw'', ''unlock'', ''--passwordenv'', ''BW_PASSWORD'', ''--raw'']
      = Exited c out" for c out
    by (simp add: bwWorld_def)
  have trim: "TrimSpace testLib (''  5up3r-s3ss10n-k3y'' @ [CHR 0x0A]) = ''5up3r-s3ss10n-k3y''"
    by (simp add: testLib_def trimASCII_def isSpaceASCII_def)
  show ?thesis
    using login_returns_trimmed_unlock_output [OF secrets config n login unlock, where c = 0 and l = testLib]
      login_returns_trimmed_unlock_output [OF secrets config n login unlock, where c = 1 and l = testLib]
      trim
    by simp
qed

subsection \<open>The router\<close>

text \<open>
  C7, as stated, fails: when \<open>bw sync\<close> exits with status 1 and output \<open>boom\<close>, the
  response to \<open>POST /sync\<close> has status 500, and its body is \<open>Sync failed: boom\<close> followed by
  a newline, which is not the captured output itself.
\<close>

theorem sync_failure_body_is_not_the_output:
  "execCommand (bwWorld 1 ''boom'') (length (spawned emptyState)) [''bw'', ''sync''] = Exited 1 ''boom''
   \<and> StatusCode (fst (serveHTTP (bwWorld 1 ''boom'') postSync emptyState)) = 500
   \<and> Body (fst (serveHTTP (bwWorld 1 ''boom'') postSync emptyState)) = ''Sync failed: boom'' @ [CHR 0x0A]
   \<and> Body (fst (serveHTTP (bwWorld 1 ''boom'') postSync emptyState)) \<noteq> ''boom''"
  by (simp add: serveHTTP_def syncHandler_def postSync_def runCommand_def bwWorld_def
      emptyState_def httpError_def logErr_def)

text \<open>
  C7, amended. For a \<open>POST\<close> request to \<open>/sync\<close>: if the sync command exits with status
  0 the response is 200 with body \<open>Sync successful\<close>; if it exits with another status the
  response is 500 and its body is \<open>Sync failed: \<close> followed by the command's captured
  combined output and a newline.
\<close>

theorem sync_post_runs_command:
  "Path r = ''/sync'' \<Longrightarrow> Method r = ''POST'' \<Longrightarrow>
   execCommand w (length (spawned st)) [''bw'', ''sync''] = Exited c out \<Longrightarrow>
   fst (serveHTTP w r st) =
     (if c = 0 then \<lparr>StatusCode = 200, Body = ''Sync successful''\<rparr>
      else \<lparr>StatusCode = 500, Body = ''Sync failed: '' @ out @ [CHR 0x0A]\<rparr>)"
  by (simp add: serveHTTP_def syncHandler_def runCommand_Exited httpError_def)

theorem sync_post_runs_command_witness:
  "fst (serveHTTP (bwWorld 0 (''Syncing complete.'' @ [CHR 0x0A])) postSync emptyState) =
     \<lparr>StatusCode = 200, Body = ''Sync successful''\<rparr>
   \<and> fst (serveHTTP (bwWorld 1 ''boom'') postSync emptyState) =
     \<lparr>StatusCode = 500, Body = ''Sync failed: boom'' @ [CHR 0x0A]\<rparr>"
proof -
  have path: "Path postSync = ''/sync''" and is_post: "Method postSync = ''POST''"
    by (simp_all add: postSync_def)
  have run: "execCommand (bwWorld c out) (length (spawned emptyState)) [''bw'', ''sync''] = Exited c out"
    for c out
    by (simp add: bwWorld_def)
  show ?thesis
    using sync_post_runs_command [OF path is_post run, of 0 "''Syncing complete.'' @ [CHR 0x0A]"]
      sync_post_runs_command [OF path is_post run, of 1 "''boom''"]
    by simp
qed

text \<open>
  C8. A request to \<open>/sync\<close> with a method other than \<open>POST\<close> is answered with 405
  whatever the world is, and the state is unchanged: the sync command is not started.
\<close>

theorem sync_other_method_is_405:
  "Path r = ''/sync'' \<Longrightarrow> Method r \<noteq> ''POST'' \<Longrightarrow>
   StatusCode (fst (serveHTTP w r st)) = 405 \<and> snd (serveHTTP w r st) = st"
  by (simp add: serveHTTP_def syncHandler_def httpError_def)

theorem sync_other_method_is_405_witness:
  "StatusCode (fst (serveHTTP (bwWorld 1 ''boom'') getSync emptyState)) = 405
   \<and> snd (serveHTTP (bwWorld 1 ''boom'') getSync emptyState) = emptyState"
proof -
  have path: "Path getSync = ''/sync''" and not_post: "Method getSync \<noteq> ''POST''"
    by (simp_all add: getSync_def)
  show ?thesis
    using sync_other_method_is_405 [OF path not_post, of "bwWorld 1 ''boom''" emptyState]
    by simp
qed

subsection \<open>The periodic sync\<close>

lemma stderr_syncTick: "\<exists>ds. stderr (syncTick w u st) = stderr st @ ds"
  by (auto simp: syncTick_def clientPost_def logErr_def split: http_result.splits option.splits)

lemma stderr_syncTicks: "\<exists>ds. stderr (syncTicks w u n st) = stderr st @ ds"
proof (induction n arbitrary: st)
  case 0
  show ?case by simp
next
  case (Suc n)
  from stderr_syncTick obtain ds where "stderr (syncTick w u st) = stderr st @ ds" by blast
  moreover from Suc.IH obtain es where
    "stderr (syncTicks w u n (syncTick w u st)) = stderr (syncTick w u st) @ es" by blast
  ultimately show ?case by simp
qed

text \<open>
  C9. Whatever the configured interval string is, if \<open>time.ParseDuration\<close> rejects it,
  \<open>startPeriodicSync\<close> writes the warning to the error stream, takes 2 minutes as the
  interval and is in its ticker loop after any number of ticks: it has neither panicked
  nor exited. When the variable is unset the string parsed is the default \<open>2m\<close>, so the
  interval is 2 minutes (given that the library parses \<open>2m\<close> as 2 minutes).
\<close>

theorem invalid_sync_interval_falls_back:
  "(s = syncIntervalStr (environ st) \<longrightarrow> ParseDuration l s = Inl e \<longrightarrow>
      startPeriodicSync l w host port n st =
        (Ticking (2 * Minute) (''http://'' @ host @ '':'' @ port @ ''/sync''),
         syncTicks w (''http://'' @ host @ '':'' @ port @ ''/sync'') n
           (logErr (InvalidSyncInterval s e) st))
      \<and> (\<exists>ds. stderr (snd (startPeriodicSync l w host port n st))
                 = stderr st @ InvalidSyncInterval s e # ds))
   \<and> (environ st ''BW_SYNC_INTERVAL'' = None \<longrightarrow> ParseDuration l ''2m'' = Inr (2 * Minute) \<longrightarrow>
        fst (startPeriodicSync l w host port n st) =
          Ticking (2 * Minute) (''http://'' @ host @ '':'' @ port @ ''/sync''))
   \<and> 2 * Minute = 120 * Second"
proof -
  let ?url = "''http://'' @ host @ '':'' @ port @ ''/sync''"
  have invalid: "startPeriodicSync l w host port n st =
        (Ticking (2 * Minute) ?url, syncTicks w ?url n (logErr (InvalidSyncInterval s e) st))"
    if "s = syncIntervalStr (environ st)" "ParseDuration l s = Inl e"
    using that by (simp add: startPeriodicSync_def Let_def Minute_def Second_def Millisecond_def)
  have warned: "\<exists>ds. stderr (snd (startPeriodicSync l w host port n st))
                 = stderr st @ InvalidSyncInterval s e # ds"
    if "s = syncIntervalStr (environ st)" "ParseDuration l s = Inl e"
  proof -
    from stderr_syncTicks obtain ds where
      "stderr (syncTicks w ?url n (logErr (InvalidSyncInterval s e) st))
         = stderr (logErr (InvalidSyncInterval s e) st) @ ds"
      by blast
    with invalid [OF that] show ?thesis by (simp add: logErr_def)
  qed
  have unset: "fst (startPeriodicSync l w host port n st) = Ticking (2 * Minute) ?url"
    if "environ st ''BW_SYNC_INTERVAL'' = None" "ParseDuration l ''2m'' = Inr (2 * Minute)"
    using that
    by (simp add: startPeriodicSync_def Let_def syncIntervalStr_def getEnv_def LookupEnv_def
        Minute_def Second_def Millisecond_def)
  have two: "2 * Minute = 120 * Second"
    by (simp add: Minute_def)
  from invalid warned unset two show ?thesis by blast
qed

theorem invalid_sync_interval_falls_back_witness:
  "startPeriodicSync testLib (bwWorld 0 '''') ''localhost'' ''8087'' 2
       (emptyState\<lparr>environ := [''BW_SYNC_INTERVAL'' \<mapsto> ''soon'']\<rparr>) =
     (Ticking (2 * Minute) ''http://localhost:8087/sync'',
      emptyState\<lparr>environ := [''BW_SYNC_INTERVAL'' \<mapsto> ''soon''],
                 posts := [''http://localhost:8087/sync'', ''http://localhost:8087/sync''],
                 stderr := [InvalidSyncInterval ''soon'' ''time: invalid duration'',
                            PeriodicSyncFailed ''connection refused'',
                            PeriodicSyncFailed ''connection refused'']\<rparr>)
   \<and> fst (startPeriodicSync testLib (bwWorld 0 '''') ''localhost'' ''8087'' 2 emptyState) =
       Ticking (2 * Minute) ''http://localhost:8087/sync''"
proof -
  let ?st = "emptyState\<lparr>environ := [''BW_SYNC_INTERVAL'' \<mapsto> ''soon'']\<rparr>"
  have s: "''soon'' = syncIntervalStr (environ ?st)"
    by (simp add: syncIntervalStr_def getEnv_def LookupEnv_def)
  have bad: "ParseDuration testLib ''soon'' = Inl ''time: invalid duration''"
    by (simp add: testLib_def)
  have unset: "environ emptyState ''BW_SYNC_INTERVAL'' = None"
    by (simp add: emptyState_def)
  have good: "ParseDuration testLib ''2m'' = Inr (2 * Minute)"
    by (simp add: testLib_def)
  have ticks: "syncTicks (bwWorld 0 '''') u 2 st0 =
      st0\<lparr>posts := posts st0 @ [u, u],
          stderr := stderr st0 @ [PeriodicSyncFailed ''connection refused'',
                                  PeriodicSyncFailed ''connection refused'']\<rparr>" for u st0
    by (simp add: numeral_2_eq_2 syncTick_def clientPost_def bwWorld_def logErr_def)
  show ?thesis
    using invalid_sync_interval_falls_back
        [of "''soon''" ?st testLib "''time: invalid duration''" "bwWorld 0 ''''" "''localhost''"
          "''8087''" 2]
      invalid_sync_interval_falls_back
        [of "''2m''" emptyState testLib "''time: invalid duration''" "bwWorld 0 ''''" "''localhost''"
          "''8087''" 2]
      s bad unset good
    by (simp add: ticks logErr_def emptyState_def)
qed

end
